theory Spec2Isabelle
  imports Complex_Main
begin

section \<open>Python string primitives used by the driver\<close>

text \<open>
  Replies arrive from the VISA layer decoded as ASCII text, so a reply is a list of
  7-bit characters. The functions below are the \<^verbatim>\<open>str\<close> methods the sources call,
  restricted to that alphabet: \<^verbatim>\<open>strip()\<close>, \<^verbatim>\<open>upper()\<close>, \<^verbatim>\<open>split(sep)\<close>,
  \<^verbatim>\<open>sep.join(xs)\<close>, the substring test \<^verbatim>\<open>a in b\<close> and the decimal text of an
  integer inside an f-string.
\<close>

definition is_space :: "char \<Rightarrow> bool" where
  "is_space c =
     (let n = (of_char c :: nat) in (9 \<le> n \<and> n \<le> 13) \<or> (28 \<le> n \<and> n \<le> 32))"

definition py_strip :: "string \<Rightarrow> string" where
  "py_strip s = rev (dropWhile is_space (rev (dropWhile is_space s)))"

definition upper_char :: "char \<Rightarrow> char" where
  "upper_char c =
     (let n = (of_char c :: nat) in if 97 \<le> n \<and> n \<le> 122 then char_of (n - 32) else c)"

definition py_upper :: "string \<Rightarrow> string" where
  "py_upper s = map upper_char s"

fun starts_with :: "string \<Rightarrow> string \<Rightarrow> bool" where
  "starts_with [] hay = True"
| "starts_with (n # ns) [] = False"
| "starts_with (n # ns) (h # hs) = (n = h \<and> starts_with ns hs)"

fun py_in :: "string \<Rightarrow> string \<Rightarrow> bool" where
  "py_in needle [] = (needle = [])"
| "py_in needle (h # hs) = (starts_with needle (h # hs) \<or> py_in needle hs)"

fun py_split :: "char \<Rightarrow> string \<Rightarrow> string list" where
  "py_split sep [] = [[]]"
| "py_split sep (c # cs) =
     (if c = sep then [] # py_split sep cs
      else (case py_split sep cs of
              [] \<Rightarrow> [[c]]
            | w # ws \<Rightarrow> (c # w) # ws))"

fun py_join :: "string \<Rightarrow> string list \<Rightarrow> string" where
  "py_join sep [] = []"
| "py_join sep [x] = x"
| "py_join sep (x # y # ys) = x @ sep @ py_join sep (y # ys)"

definition digit_char :: "nat \<Rightarrow> char" where
  "digit_char d = char_of (48 + d)"

fun str_nat :: "nat \<Rightarrow> string" where
  "str_nat n = (if n < 10 then [digit_char n] else str_nat (n div 10) @ [digit_char (n mod 10)])"

declare str_nat.simps [simp del]

definition str_int :: "int \<Rightarrow> string" where
  "str_int i = (if i < 0 then CHR ''-'' # str_nat (nat (- i)) else str_nat (nat i))"


section \<open>Exceptions, the transport and the I/O trace\<close>

text \<open>
  The exceptions the sources can raise. \<open>ValueError\<close> and \<open>IndexError\<close> carry
  Python's message; \<open>VisaIOError\<close> stands for any exception thrown by the VISA session
  (time-out, reset, refused connection); \<open>ImportError\<close> is raised by
  \<^verbatim>\<open>test_ip.py\<close> when PyVISA is missing.
\<close>

datatype error =
    ValueError string
  | IndexError string
  | VisaIOError
  | ImportError string

text \<open>One entry per call made on the session object \<^verbatim>\<open>self.inst\<close>.\<close>

datatype io = Query string | Write string

text \<open>
  The surroundings of a \<^verbatim>\<open>DP832\<close> object: the built-ins \<^verbatim>\<open>float(s)\<close> (\<open>Inl m\<close>
  is \<^verbatim>\<open>ValueError(m)\<close>) and the text of a float in an f-string, and the instrument
  behind the session, which answers a query (\<open>None\<close>: the session raised) and accepts
  a write (\<open>False\<close>: the session raised) depending on everything sent so far.
\<close>

record 'f env =
  float_of :: "string \<Rightarrow> string + 'f"
  str_of :: "'f \<Rightarrow> string"
  inst_query :: "io list \<Rightarrow> string \<Rightarrow> string option"
  inst_write :: "io list \<Rightarrow> string \<Rightarrow> bool"

text \<open>
  A method body is a function from the trace so far to its outcome (an exception or a
  value) and the trace afterwards; \<open>and_then\<close> is statement sequencing, where an
  exception skips the rest.
\<close>

type_synonym 'a action = "io list \<Rightarrow> (error + 'a) \<times> io list"

definition ret :: "'a \<Rightarrow> 'a action" where
  "ret x = (\<lambda>tr. (Inr x, tr))"

definition lift :: "error + 'a \<Rightarrow> 'a action" where
  "lift r = (\<lambda>tr. (r, tr))"

definition and_then :: "'a action \<Rightarrow> ('a \<Rightarrow> 'b action) \<Rightarrow> 'b action" where
  "and_then m f =
     (\<lambda>tr. case m tr of
               (Inl e, tr') \<Rightarrow> (Inl e, tr')
             | (Inr x, tr') \<Rightarrow> f x tr')"

definition visa_query :: "'f env \<Rightarrow> string \<Rightarrow> string action" where
  "visa_query E cmd =
     (\<lambda>tr. case inst_query E tr cmd of
               None \<Rightarrow> (Inl VisaIOError, tr @ [Query cmd])
             | Some reply \<Rightarrow> (Inr reply, tr @ [Query cmd]))"

definition visa_write :: "'f env \<Rightarrow> string \<Rightarrow> unit action" where
  "visa_write E cmd =
     (\<lambda>tr. if inst_write E tr cmd then (Inr (), tr @ [Write cmd])
            else (Inl VisaIOError, tr @ [Write cmd]))"

text \<open>\<^verbatim>\<open>xs[i]\<close> with Python's negative indices and its \<open>IndexError\<close>.\<close>

definition py_index :: "'a list \<Rightarrow> int \<Rightarrow> error + 'a" where
  "py_index xs i =
     (if i < - int (length xs) \<or> int (length xs) \<le> i
      then Inl (IndexError ''list index out of range'')
      else if i < 0 then Inr (xs ! (length xs - nat (- i)))
      else Inr (xs ! nat i))"

definition to_float :: "'f env \<Rightarrow> string \<Rightarrow> error + 'f" where
  "to_float E s = (case float_of E s of Inl m \<Rightarrow> Inl (ValueError m) | Inr x \<Rightarrow> Inr x)"

text \<open>\<^verbatim>\<open>float(xs[i])\<close>: the index is evaluated first, then the conversion.\<close>

definition float_at :: "'f env \<Rightarrow> string list \<Rightarrow> int \<Rightarrow> error + 'f" where
  "float_at E xs i = (case py_index xs i of Inl e \<Rightarrow> Inl e | Inr s \<Rightarrow> to_float E s)"


section \<open>The instrument client: class \<^verbatim>\<open>DP832\<close> of \<^verbatim>\<open>rigol_dp832.py\<close>\<close>

text \<open>
  Each method is translated statement by statement. The calls to \<^verbatim>\<open>logger.info\<close>
  after a write do not touch the session and are left out. The dictionaries the getters
  return have fixed keys and become records.
\<close>

record id_info =
  manufacturer :: string
  model :: string
  serial_number :: string
  version :: string

record 'f settings =
  voltage :: 'f
  current :: 'f

record 'f measurements =
  meas_voltage :: 'f
  meas_current :: 'f
  meas_power :: 'f

definition channel_message :: "int \<Rightarrow> string" where
  "channel_message channel = ''Channel must be 1, 2, or 3, got '' @ str_int channel"

definition validate_channel :: "int \<Rightarrow> unit action" where
  "validate_channel channel =
     (if channel \<notin> set [1, 2, 3] then lift (Inl (ValueError (channel_message channel)))
      else ret ())"

definition on_off :: "bool \<Rightarrow> string" where
  "on_off b = (if b then ''ON'' else ''OFF'')"

definition id_op :: "'f env \<Rightarrow> id_info action" where
  "id_op E =
     and_then (visa_query E ''*IDN?'') (\<lambda>reply.
       let id_str = py_split CHR '','' (py_strip reply) in
       and_then (lift (py_index id_str 0)) (\<lambda>f0.
       and_then (lift (py_index id_str 1)) (\<lambda>f1.
       and_then (lift (py_index id_str 2)) (\<lambda>f2.
       and_then (lift (py_index id_str 3)) (\<lambda>f3.
       ret \<lparr>manufacturer = f0, model = f1, serial_number = f2, version = f3\<rparr>)))))"

definition get_output_state :: "'f env \<Rightarrow> int \<Rightarrow> bool action" where
  "get_output_state E channel =
     and_then (validate_channel channel) (\<lambda>_.
     and_then (visa_query E ('':OUTP:STAT? CH'' @ str_int channel)) (\<lambda>reply.
     ret (py_strip reply = ''ON'')))"

definition set_output_state :: "'f env \<Rightarrow> int \<Rightarrow> bool \<Rightarrow> unit action" where
  "set_output_state E channel state =
     and_then (validate_channel channel) (\<lambda>_.
     visa_write E ('':OUTP:STAT CH'' @ str_int channel @ '','' @ on_off state))"

definition get_channel_settings :: "'f env \<Rightarrow> int \<Rightarrow> 'f settings action" where
  "get_channel_settings E channel =
     and_then (validate_channel channel) (\<lambda>_.
     and_then (visa_query E ('':APPL? CH'' @ str_int channel)) (\<lambda>reply.
       let fields = py_split CHR '','' (py_strip reply) in
       and_then (lift (float_at E fields (- 2))) (\<lambda>v.
       and_then (lift (float_at E fields (- 1))) (\<lambda>c.
       ret \<lparr>voltage = v, current = c\<rparr>))))"

definition set_channel_settings :: "'f env \<Rightarrow> int \<Rightarrow> 'f \<Rightarrow> 'f \<Rightarrow> unit action" where
  "set_channel_settings E channel v c =
     and_then (validate_channel channel) (\<lambda>_.
     visa_write E ('':APPL CH'' @ str_int channel @ '','' @ str_of E v @ '','' @ str_of E c))"

definition measure_voltage :: "'f env \<Rightarrow> int \<Rightarrow> 'f action" where
  "measure_voltage E channel =
     and_then (validate_channel channel) (\<lambda>_.
     and_then (visa_query E ('':MEAS? CH'' @ str_int channel)) (\<lambda>reply.
     lift (to_float E (py_strip reply))))"

definition measure_current :: "'f env \<Rightarrow> int \<Rightarrow> 'f action" where
  "measure_current E channel =
     and_then (validate_channel channel) (\<lambda>_.
     and_then (visa_query E ('':MEAS:CURR? CH'' @ str_int channel)) (\<lambda>reply.
     lift (to_float E (py_strip reply))))"

definition measure_power :: "'f env \<Rightarrow> int \<Rightarrow> 'f action" where
  "measure_power E channel =
     and_then (validate_channel channel) (\<lambda>_.
     and_then (visa_query E ('':MEAS:ALL? CH'' @ str_int channel)) (\<lambda>reply.
       let fields = py_split CHR '','' (py_strip reply) in
       lift (float_at E fields 2)))"

definition measure_all :: "'f env \<Rightarrow> int \<Rightarrow> 'f measurements action" where
  "measure_all E channel =
     and_then (validate_channel channel) (\<lambda>_.
     and_then (visa_query E ('':MEAS:ALL? CH'' @ str_int channel)) (\<lambda>reply.
       let fields = py_split CHR '','' (py_strip reply) in
       and_then (lift (float_at E fields 0)) (\<lambda>v.
       and_then (lift (float_at E fields 1)) (\<lambda>c.
       and_then (lift (float_at E fields 2)) (\<lambda>p.
       ret \<lparr>meas_voltage = v, meas_current = c, meas_power = p\<rparr>)))))"

definition get_output_mode :: "'f env \<Rightarrow> int \<Rightarrow> string action" where
  "get_output_mode E channel =
     and_then (validate_channel channel) (\<lambda>_.
     and_then (visa_query E ('':OUTP:MODE? CH'' @ str_int channel)) (\<lambda>reply.
     ret (py_strip reply)))"

definition get_ocp_enabled :: "'f env \<Rightarrow> int \<Rightarrow> bool action" where
  "get_ocp_enabled E channel =
     and_then (validate_channel channel) (\<lambda>_.
     and_then (visa_query E ('':OUTP:OCP? CH'' @ str_int channel)) (\<lambda>reply.
     ret (py_strip reply = ''ON'')))"

definition set_ocp_enabled :: "'f env \<Rightarrow> int \<Rightarrow> bool \<Rightarrow> unit action" where
  "set_ocp_enabled E channel enabled =
     and_then (validate_channel channel) (\<lambda>_.
     visa_write E ('':OUTP:OCP CH'' @ str_int channel @ '','' @ on_off enabled))"

definition get_ocp_value :: "'f env \<Rightarrow> int \<Rightarrow> 'f action" where
  "get_ocp_value E channel =
     and_then (validate_channel channel) (\<lambda>_.
     and_then (visa_query E ('':OUTP:OCP:VAL? CH'' @ str_int channel)) (\<lambda>reply.
     lift (to_float E (py_strip reply))))"

definition set_ocp_value :: "'f env \<Rightarrow> int \<Rightarrow> 'f \<Rightarrow> unit action" where
  "set_ocp_value E channel c =
     and_then (validate_channel channel) (\<lambda>_.
     visa_write E ('':OUTP:OCP:VAL CH'' @ str_int channel @ '','' @ str_of E c))"

definition get_ovp_enabled :: "'f env \<Rightarrow> int \<Rightarrow> bool action" where
  "get_ovp_enabled E channel =
     and_then (validate_channel channel) (\<lambda>_.
     and_then (visa_query E ('':OUTP:OVP? CH'' @ str_int channel)) (\<lambda>reply.
     ret (py_strip reply = ''ON'')))"

definition set_ovp_enabled :: "'f env \<Rightarrow> int \<Rightarrow> bool \<Rightarrow> unit action" where
  "set_ovp_enabled E channel enabled =
     and_then (validate_channel channel) (\<lambda>_.
     visa_write E ('':OUTP:OVP CH'' @ str_int channel @ '','' @ on_off enabled))"

definition get_ovp_value :: "'f env \<Rightarrow> int \<Rightarrow> 'f action" where
  "get_ovp_value E channel =
     and_then (validate_channel channel) (\<lambda>_.
     and_then (visa_query E ('':OUTP:OVP:VAL? CH'' @ str_int channel)) (\<lambda>reply.
     lift (to_float E (py_strip reply))))"

definition set_ovp_value :: "'f env \<Rightarrow> int \<Rightarrow> 'f \<Rightarrow> unit action" where
  "set_ovp_value E channel v =
     and_then (validate_channel channel) (\<lambda>_.
     visa_write E ('':OUTP:OVP:VAL CH'' @ str_int channel @ '','' @ str_of E v))"

definition get_ocp_alarm :: "'f env \<Rightarrow> int \<Rightarrow> bool action" where
  "get_ocp_alarm E channel =
     and_then (validate_channel channel) (\<lambda>_.
     and_then (visa_query E ('':OUTP:OCP:ALAR? CH'' @ str_int channel)) (\<lambda>reply.
     ret (py_strip reply = ''YES'')))"

definition clear_ocp_alarm :: "'f env \<Rightarrow> int \<Rightarrow> unit action" where
  "clear_ocp_alarm E channel =
     and_then (validate_channel channel) (\<lambda>_.
     visa_write E ('':OUTP:OCP:CLEAR CH'' @ str_int channel))"

definition get_ovp_alarm :: "'f env \<Rightarrow> int \<Rightarrow> bool action" where
  "get_ovp_alarm E channel =
     and_then (validate_channel channel) (\<lambda>_.
     and_then (visa_query E ('':OUTP:OVP:ALAR? CH'' @ str_int channel)) (\<lambda>reply.
     ret (py_strip reply = ''ON'')))"

definition clear_ovp_alarm :: "'f env \<Rightarrow> int \<Rightarrow> unit action" where
  "clear_ovp_alarm E channel =
     and_then (validate_channel channel) (\<lambda>_.
     visa_write E ('':OUTP:OVP:CLEAR CH'' @ str_int channel))"


section \<open>Discovery: \<^verbatim>\<open>discovery.py\<close> and \<^verbatim>\<open>rigol_dp832/test_ip.py\<close>\<close>

text \<open>
  What the network does is a parameter. \<open>local_ip\<close> is the address read from the
  throw-away UDP socket (\<open>None\<close>: some socket call raised); \<open>ping_returncode\<close> is the
  exit status of \<^verbatim>\<open>ping\<close> for an address (\<open>None\<close>: \<^verbatim>\<open>subprocess.run\<close> raised or
  timed out); \<open>pyvisa_importable\<close> says whether \<^verbatim>\<open>import pyvisa\<close> succeeds;
  \<open>visa_session\<close> gives, for a VISA resource string, the reply to \<^verbatim>\<open>*IDN?\<close> when
  opening the session, the query and both \<^verbatim>\<open>close()\<close> calls all succeed, and \<open>None\<close>
  when any of them raises.
\<close>

record net =
  local_ip :: "string option"
  ping_returncode :: "string \<Rightarrow> int option"
  pyvisa_importable :: bool
  visa_session :: "string \<Rightarrow> string option"

definition get_local_network :: "net \<Rightarrow> string" where
  "get_local_network N =
     (case local_ip N of
        Some ip \<Rightarrow> py_join ''.'' (butlast (py_split CHR ''.'' ip))
      | None \<Rightarrow> ''192.168.1'')"

definition ping_ip :: "net \<Rightarrow> string \<Rightarrow> bool" where
  "ping_ip N ip = (case ping_returncode N ip of Some rc \<Rightarrow> rc = 0 | None \<Rightarrow> False)"

definition resource_string :: "string \<Rightarrow> int \<Rightarrow> string" where
  "resource_string ip port = ''TCPIP0::'' @ ip @ ''::'' @ str_int port @ ''::SOCKET''"

text \<open>\<^verbatim>\<open>discovery.py\<close>: the import is inside the \<^verbatim>\<open>try\<close>, every exception gives \<open>None\<close>.\<close>

definition test_dp832_connection :: "net \<Rightarrow> string \<Rightarrow> int \<Rightarrow> string option" where
  "test_dp832_connection N ip port =
     (if \<not> pyvisa_importable N then None
      else (case visa_session N (resource_string ip port) of
              None \<Rightarrow> None
            | Some id_response \<Rightarrow>
                if py_in ''RIGOL'' (py_upper id_response) \<and> py_in ''DP832'' (py_upper id_response)
                then Some (py_strip id_response)
                else None))"

definition discovery_test_ip :: "net \<Rightarrow> string \<Rightarrow> int \<Rightarrow> string option" where
  "discovery_test_ip N ip_address port = test_dp832_connection N ip_address port"

text \<open>
  \<^verbatim>\<open>rigol_dp832/test_ip.py\<close>: the availability check is outside the \<^verbatim>\<open>try\<close> and
  raises; three model tokens are accepted.
\<close>

definition test_ip :: "net \<Rightarrow> string \<Rightarrow> int \<Rightarrow> error + string option" where
  "test_ip N ip port =
     (if \<not> pyvisa_importable N
      then Inl (ImportError ''PyVISA not available. Please install: pip install pyvisa'')
      else (case visa_session N (resource_string ip port) of
              None \<Rightarrow> Inr None
            | Some id_response \<Rightarrow>
                let id_upper = py_upper id_response in
                if py_in ''RIGOL'' id_upper
                   \<and> list_ex (\<lambda>m. py_in m id_upper) [''DP832'', ''DP821'', ''DP712'']
                then Inr (Some (py_strip id_response))
                else Inr None))"

text \<open>
  The second loop of \<^verbatim>\<open>find_dp832_devices\<close>: a host is kept when the probe's result is
  truthy, that is a non-empty string.
\<close>

fun probe_hosts :: "net \<Rightarrow> int \<Rightarrow> string list \<Rightarrow> (string \<times> string) list" where
  "probe_hosts N port [] = []"
| "probe_hosts N port (ip # ips) =
     (case test_dp832_connection N ip port of
        None \<Rightarrow> probe_hosts N port ips
      | Some device_id \<Rightarrow>
          if device_id \<noteq> [] then (ip, device_id) # probe_hosts N port ips
          else probe_hosts N port ips)"

text \<open>
  The sweep submits one ping per host suffix and collects the results as the futures
  complete. That order is the scheduler's; it is the parameter \<open>order\<close>, the host
  suffixes (a permutation of \<open>1..254\<close>) in completion order.
\<close>

definition responsive_ips :: "net \<Rightarrow> string \<Rightarrow> nat list \<Rightarrow> string list" where
  "responsive_ips N base order =
     filter (ping_ip N) (map (\<lambda>i. base @ ''.'' @ str_nat i) order)"

definition find_dp832_devices ::
  "net \<Rightarrow> string option \<Rightarrow> int \<Rightarrow> nat list \<Rightarrow> (string \<times> string) list" where
  "find_dp832_devices N network_base port order =
     (let base = (case network_base of None \<Rightarrow> get_local_network N | Some b \<Rightarrow> b);
          responsive = responsive_ips N base order
      in if responsive = [] then [] else probe_hosts N port responsive)"

definition find_first_dp832 ::
  "net \<Rightarrow> string option \<Rightarrow> int \<Rightarrow> nat list \<Rightarrow> (string \<times> string) option" where
  "find_first_dp832 N network_base port order =
     (let devices = find_dp832_devices N network_base port order
      in if devices \<noteq> [] then Some (devices ! 0) else None)"


section \<open>A bench set-up for concrete runs\<close>

text \<open>
  A stand-in for \<^verbatim>\<open>float\<close> on plain decimals (\<open>digits\<close> or \<open>digits.digits\<close>, read
  as a rational), and an instrument that gives one fixed reply to every query and
  accepts every write.
\<close>

definition digit_val :: "char \<Rightarrow> nat option" where
  "digit_val c =
     (let n = (of_char c :: nat) in if 48 \<le> n \<and> n \<le> 57 then Some (n - 48) else None)"

fun dec_nat :: "string \<Rightarrow> nat \<Rightarrow> nat option" where
  "dec_nat [] acc = Some acc"
| "dec_nat (c # cs) acc =
     (case digit_val c of None \<Rightarrow> None | Some d \<Rightarrow> dec_nat cs (10 * acc + d))"

definition float_message :: "string \<Rightarrow> string" where
  "float_message s = ''could not convert string to float: '' @ [char_of (39::nat)] @ s @ [char_of (39::nat)]"

definition bench_float :: "string \<Rightarrow> string + rat" where
  "bench_float s =
     (case py_split CHR ''.'' s of
        [a] \<Rightarrow> (if a = [] then Inl (float_message s)
                else (case dec_nat a 0 of
                        None \<Rightarrow> Inl (float_message s)
                      | Some m \<Rightarrow> Inr (of_nat m)))
      | [a, b] \<Rightarrow> (if a = [] \<or> b = [] then Inl (float_message s)
                   else (case (dec_nat a 0, dec_nat b 0) of
                           (Some m, Some n) \<Rightarrow> Inr (of_nat m + of_nat n / 10 ^ length b)
                         | _ \<Rightarrow> Inl (float_message s)))
      | _ \<Rightarrow> Inl (float_message s))"

definition bench_str :: "rat \<Rightarrow> string" where
  "bench_str q = (case quotient_of q of (n, d) \<Rightarrow> str_int n @ ''/'' @ str_int d)"

definition bench :: "string \<Rightarrow> rat env" where
  "bench reply =
     \<lparr>float_of = bench_float, str_of = bench_str,
      inst_query = (\<lambda>tr cmd. Some reply), inst_write = (\<lambda>tr cmd. True)\<rparr>"

definition bench_net :: "bool \<Rightarrow> string option \<Rightarrow> net" where
  "bench_net importable reply =
     \<lparr>local_ip = Some ''10.0.0.17'', ping_returncode = (\<lambda>ip. Some 1),
      pyvisa_importable = importable, visa_session = (\<lambda>r. reply)\<rparr>"

text \<open>
  A small laboratory network: hosts \<open>.10\<close> and \<open>.20\<close> answer the ping, and only
  \<open>.20\<close> identifies itself as the power supply.
\<close>

definition lab_net :: net where
  "lab_net =
     \<lparr>local_ip = Some ''10.0.0.17'',
      ping_returncode = (\<lambda>ip. if ip = ''10.0.0.10'' \<or> ip = ''10.0.0.20'' then Some 0 else Some 1),
      pyvisa_importable = True,
      visa_session = (\<lambda>r. if r = ''TCPIP0::10.0.0.20::5555::SOCKET''
                           then Some ''RIGOL TECHNOLOGIES,DP832,DP8C1234,00.01.14''
                           else None)\<rparr>"


section \<open>Vocabulary of the statements\<close>

text \<open>
  \<open>rejects channel tr m\<close>: run from trace \<open>tr\<close>, the method \<open>m\<close> raises the
  \<^verbatim>\<open>ValueError\<close> of \<^verbatim>\<open>_validate_channel\<close> and leaves the trace as it was, so
  neither a query nor a write reached the session.
\<close>

definition rejects :: "int \<Rightarrow> io list \<Rightarrow> 'a action \<Rightarrow> bool" where
  "rejects channel tr m = (m tr = (Inl (ValueError (channel_message channel)), tr))"

text \<open>The comma-separated fields of a reply, as every parsing method computes them.\<close>

definition comma_fields :: "string \<Rightarrow> string list" where
  "comma_fields reply = py_split CHR '','' (py_strip reply)"

text \<open>\<open>numeric E s\<close>: \<^verbatim>\<open>float(s)\<close> returns a value.\<close>

definition numeric :: "'f env \<Rightarrow> string \<Rightarrow> bool" where
  "numeric E s = (case float_of E s of Inl m \<Rightarrow> False | Inr x \<Rightarrow> True)"

text \<open>
  \<open>parse_failure r\<close>: the outcome \<open>r\<close> is one of the two built-in exceptions a
  malformed reply can provoke, \<^verbatim>\<open>ValueError\<close> (from \<^verbatim>\<open>float\<close>) or
  \<^verbatim>\<open>IndexError\<close> (from indexing the list of fields).
\<close>

definition parse_failure :: "error + 'a \<Rightarrow> bool" where
  "parse_failure r =
     (case r of
        Inl (ValueError m) \<Rightarrow> True
      | Inl (IndexError m) \<Rightarrow> True
      | _ \<Rightarrow> False)"

text \<open>
  The specification's requirement on a parse error, read on the exception's message:
  it contains the raw reply text and the name of the operation attempted.
\<close>

definition names_reply_and_operation :: "error \<Rightarrow> string \<Rightarrow> string \<Rightarrow> bool" where
  "names_reply_and_operation e reply operation =
     (case e of
        ValueError m \<Rightarrow> py_in reply m \<and> py_in operation m
      | IndexError m \<Rightarrow> py_in reply m \<and> py_in operation m
      | ImportError m \<Rightarrow> py_in reply m \<and> py_in operation m
      | VisaIOError \<Rightarrow> False)"

text \<open>
  The specification's classification of an identification reply: its upper-cased text
  contains the vendor token and at least one of the accepted model tokens.
\<close>

definition vendor_and_model :: "string list \<Rightarrow> string \<Rightarrow> bool" where
  "vendor_and_model models reply =
     (py_in ''RIGOL'' (py_upper reply) \<and> list_ex (\<lambda>m. py_in m (py_upper reply)) models)"

text \<open>The subnet base a scan uses, and the address of host suffix \<open>i\<close> on it.\<close>

definition network_base_of :: "net \<Rightarrow> string option \<Rightarrow> string" where
  "network_base_of N network_base =
     (case network_base of None \<Rightarrow> get_local_network N | Some b \<Rightarrow> b)"

definition host_address :: "string \<Rightarrow> nat \<Rightarrow> string" where
  "host_address base i = base @ ''.'' @ str_nat i"


section \<open>Sequencing and string lemmas\<close>

lemma validate_channel_invalid:
  "channel \<notin> {1, 2, 3} \<Longrightarrow> validate_channel channel tr = (Inl (ValueError (channel_message channel)), tr)"
  by (simp add: validate_channel_def lift_def)

lemma validate_channel_valid:
  "channel \<in> {1, 2, 3} \<Longrightarrow> validate_channel channel tr = (Inr (), tr)"
  by (auto simp add: validate_channel_def ret_def)

lemma and_then_raises:
  "m tr = (Inl e, tr') \<Longrightarrow> and_then m f tr = (Inl e, tr')"
  by (simp add: and_then_def)

lemma and_then_returns:
  "m tr = (Inr x, tr') \<Longrightarrow> and_then m f tr = f x tr'"
  by (simp add: and_then_def)

lemma guarded_rejects:
  "channel \<notin> {1, 2, 3} \<Longrightarrow> rejects channel tr (and_then (validate_channel channel) f)"
  unfolding rejects_def by (rule and_then_raises) (rule validate_channel_invalid)

lemma guarded_runs:
  "channel \<in> {1, 2, 3} \<Longrightarrow> and_then (validate_channel channel) f tr = f () tr"
  by (rule and_then_returns) (rule validate_channel_valid)

lemma query_answered:
  "inst_query E tr cmd = Some reply \<Longrightarrow>
   and_then (visa_query E cmd) f tr = f reply (tr @ [Query cmd])"
  by (simp add: and_then_def visa_query_def)

lemma py_split_no_sep: "sep \<notin> set a \<Longrightarrow> py_split sep a = [a]"
  by (induction a) auto

lemma py_split_field:
  "sep \<notin> set a \<Longrightarrow> py_split sep (a @ sep # rest) = a # py_split sep rest"
  by (induction a) auto

text \<open>\<^verbatim>\<open>split\<close> always returns at least one field, so the empty case in \<open>py_split\<close> is never taken.\<close>

lemma py_split_nonempty: "py_split sep s \<noteq> []"
  by (induction s) (auto split: list.splits)

lemma py_index_negative:
  assumes "i < 0" and "nat (- i) \<le> length xs"
  shows "py_index xs i = Inr (xs ! (length xs - nat (- i)))"
proof -
  have "\<not> i < - int (length xs)" "\<not> int (length xs) \<le> i"
    using assms by linarith+
  then show ?thesis
    using assms(1) by (simp add: py_index_def)
qed

lemma py_index_last: "py_index (pre @ [a, b]) (- 1) = Inr b"
  using py_index_negative [of "- 1" "pre @ [a, b]"] by (simp add: nth_append)

lemma py_index_last_but_one: "py_index (pre @ [a, b]) (- 2) = Inr a"
  using py_index_negative [of "- 2" "pre @ [a, b]"] by (simp add: nth_append)

lemma float_at_ok:
  "py_index xs i = Inr s \<Longrightarrow> float_of E s = Inr x \<Longrightarrow> float_at E xs i = Inr x"
  by (simp add: float_at_def to_float_def)

lemma lift_returns: "lift (Inr x) tr = (Inr x, tr)"
  by (simp add: lift_def)


section \<open>What a malformed reply does to the parsing steps\<close>

lemma float_at_failure:
  "float_at E xs i = Inl e \<Longrightarrow> parse_failure (Inl e :: error + 'b)"
  by (auto simp add: float_at_def to_float_def py_index_def Let_def parse_failure_def
      split: sum.splits if_splits)

lemma float_at_nonneg:
  "float_at E xs (int k) = Inr x \<Longrightarrow> k < length xs \<and> float_of E (xs ! k) = Inr x"
  by (auto simp add: float_at_def to_float_def py_index_def Let_def
      split: sum.splits if_splits)

lemma float_at_neg:
  assumes "float_at E xs (- int k) = Inr x" and "0 < k"
  shows "k \<le> length xs \<and> float_of E (xs ! (length xs - k)) = Inr x"
proof -
  from assms have le: "k \<le> length xs"
    by (auto simp add: float_at_def py_index_def Let_def split: sum.splits if_splits)
  with assms(2) have "py_index xs (- int k) = Inr (xs ! (length xs - k))"
    using py_index_negative [of "- int k" xs] by simp
  with assms(1) le show ?thesis
    by (auto simp add: float_at_def to_float_def split: sum.splits)
qed

lemma lift_and_then:
  "and_then (lift r) f tr = (case r of Inl e \<Rightarrow> (Inl e, tr) | Inr x \<Rightarrow> f x tr)"
  by (simp add: and_then_def lift_def split: sum.splits)

lemma py_index_short:
  "length xs \<le> k \<Longrightarrow> py_index xs (int k) = Inl (IndexError ''list index out of range'')"
  by (simp add: py_index_def Let_def)

lemma id_op_short:
  assumes q: "inst_query E tr ''*IDN?'' = Some reply"
    and short: "length (py_split CHR '','' (py_strip reply)) < 4"
  shows "id_op E tr = (Inl (IndexError ''list index out of range''), tr @ [Query ''*IDN?''])"
proof -
  let ?xs = "py_split CHR '','' (py_strip reply)"
  have i3: "py_index ?xs 3 = Inl (IndexError ''list index out of range'')"
    using short py_index_short [of ?xs 3] by simp
  have any: "\<And>k. py_index ?xs k = Inl (IndexError ''list index out of range'') \<or> (\<exists>s. py_index ?xs k = Inr s)"
    by (simp add: py_index_def Let_def)
  show ?thesis
    unfolding id_op_def
    using q any [of 0] any [of 1] any [of 2] i3
    by (auto simp add: query_answered Let_def lift_and_then)
qed

lemma single_float_fails:
  assumes "channel \<in> {1, 2, 3}" and "inst_query E tr cmd = Some reply"
    and "float_of E (py_strip reply) = Inl m"
  shows "and_then (validate_channel channel) (\<lambda>_.
           and_then (visa_query E cmd) (\<lambda>reply. lift (to_float E (py_strip reply)))) tr
         = (Inl (ValueError m), tr @ [Query cmd])"
  using assms by (simp add: guarded_runs query_answered to_float_def lift_def)

lemma channel_settings_malformed:
  assumes ch: "channel \<in> {1, 2, 3}"
    and q: "inst_query E tr ('':APPL? CH'' @ str_int channel) = Some reply"
    and bad: "length (py_split CHR '','' (py_strip reply)) < 2
              \<or> \<not> numeric E (py_split CHR '','' (py_strip reply) ! (length (py_split CHR '','' (py_strip reply)) - 2))
              \<or> \<not> numeric E (py_split CHR '','' (py_strip reply) ! (length (py_split CHR '','' (py_strip reply)) - 1))"
  shows "parse_failure (fst (get_channel_settings E channel tr))"
proof -
  let ?xs = "py_split CHR '','' (py_strip reply)"
  have run: "get_channel_settings E channel tr =
      and_then (lift (float_at E ?xs (- 2))) (\<lambda>v.
       and_then (lift (float_at E ?xs (- 1))) (\<lambda>c.
       ret \<lparr>voltage = v, current = c\<rparr>)) (tr @ [Query ('':APPL? CH'' @ str_int channel)])"
    unfolding get_channel_settings_def using ch q
    by (simp add: guarded_runs query_answered Let_def)
  show ?thesis
  proof (cases "float_at E ?xs (- 2)")
    case (Inl e)
    then show ?thesis using float_at_failure [OF Inl] by (simp add: run lift_and_then)
  next
    case a: (Inr v)
    show ?thesis
    proof (cases "float_at E ?xs (- 1)")
      case (Inl e)
      then show ?thesis using a float_at_failure [OF Inl] by (simp add: run lift_and_then)
    next
      case b: (Inr c)
      from a have "2 \<le> length ?xs \<and> float_of E (?xs ! (length ?xs - 2)) = Inr v"
        using float_at_neg [of E ?xs 2 v] by simp
      moreover from b have "1 \<le> length ?xs \<and> float_of E (?xs ! (length ?xs - 1)) = Inr c"
        using float_at_neg [of E ?xs 1 c] by simp
      ultimately have False using bad by (auto simp add: numeric_def)
      then show ?thesis ..
    qed
  qed
qed

lemma measure_power_malformed:
  assumes ch: "channel \<in> {1, 2, 3}"
    and q: "inst_query E tr ('':MEAS:ALL? CH'' @ str_int channel) = Some reply"
    and bad: "length (py_split CHR '','' (py_strip reply)) < 3
              \<or> \<not> numeric E (py_split CHR '','' (py_strip reply) ! 2)"
  shows "parse_failure (fst (measure_power E channel tr))"
proof -
  let ?xs = "py_split CHR '','' (py_strip reply)"
  have run: "measure_power E channel tr =
      lift (float_at E ?xs 2) (tr @ [Query ('':MEAS:ALL? CH'' @ str_int channel)])"
    unfolding measure_power_def using ch q
    by (simp add: guarded_runs query_answered Let_def)
  show ?thesis
  proof (cases "float_at E ?xs 2")
    case (Inl e)
    then show ?thesis using float_at_failure [OF Inl] by (simp add: run lift_def)
  next
    case (Inr p)
    then have "2 < length ?xs \<and> float_of E (?xs ! 2) = Inr p"
      using float_at_nonneg [of E ?xs 2 p] by simp
    then have False using bad by (auto simp add: numeric_def)
    then show ?thesis ..
  qed
qed

lemma measure_all_malformed:
  assumes ch: "channel \<in> {1, 2, 3}"
    and q: "inst_query E tr ('':MEAS:ALL? CH'' @ str_int channel) = Some reply"
    and bad: "length (py_split CHR '','' (py_strip reply)) < 3
              \<or> \<not> numeric E (py_split CHR '','' (py_strip reply) ! 0)
              \<or> \<not> numeric E (py_split CHR '','' (py_strip reply) ! 1)
              \<or> \<not> numeric E (py_split CHR '','' (py_strip reply) ! 2)"
  shows "parse_failure (fst (measure_all E channel tr))"
proof -
  let ?xs = "py_split CHR '','' (py_strip reply)"
  have run: "measure_all E channel tr =
      and_then (lift (float_at E ?xs 0)) (\<lambda>v.
       and_then (lift (float_at E ?xs 1)) (\<lambda>c.
       and_then (lift (float_at E ?xs 2)) (\<lambda>p.
       ret \<lparr>meas_voltage = v, meas_current = c, meas_power = p\<rparr>)))
        (tr @ [Query ('':MEAS:ALL? CH'' @ str_int channel)])"
    unfolding measure_all_def using ch q
    by (simp add: guarded_runs query_answered Let_def)
  show ?thesis
  proof (cases "float_at E ?xs 0")
    case (Inl e)
    then show ?thesis using float_at_failure [OF Inl] by (simp add: run lift_and_then)
  next
    case a: (Inr v)
    show ?thesis
    proof (cases "float_at E ?xs 1")
      case (Inl e)
      then show ?thesis using a float_at_failure [OF Inl] by (simp add: run lift_and_then)
    next
      case b: (Inr c)
      show ?thesis
      proof (cases "float_at E ?xs 2")
        case (Inl e)
        then show ?thesis using a b float_at_failure [OF Inl] by (simp add: run lift_and_then)
      next
        case d: (Inr p)
        from a have "float_of E (?xs ! 0) = Inr v"
          using float_at_nonneg [of E ?xs 0 v] by simp
        moreover from b have "float_of E (?xs ! 1) = Inr c"
          using float_at_nonneg [of E ?xs 1 c] by simp
        moreover from d have "2 < length ?xs \<and> float_of E (?xs ! 2) = Inr p"
          using float_at_nonneg [of E ?xs 2 p] by simp
        ultimately have False using bad by (auto simp add: numeric_def)
        then show ?thesis ..
      qed
    qed
  qed
qed


section \<open>Concrete runs on the bench\<close>

lemma digit_chars:
  "digit_char 0 = CHR ''0''" "digit_char (Suc 0) = CHR ''1''" "digit_char 1 = CHR ''1''"
  "digit_char 2 = CHR ''2''" "digit_char 3 = CHR ''3''" "digit_char 4 = CHR ''4''"
  "digit_char 5 = CHR ''5''" "digit_char 6 = CHR ''6''" "digit_char 7 = CHR ''7''"
  "digit_char 8 = CHR ''8''" "digit_char 9 = CHR ''9''"
  by code_simp+

lemma channel_text:
  "str_int 1 = ''1''" "str_int 2 = ''2''" "str_int 3 = ''3''" "str_int 4 = ''4''"
  by (simp_all add: str_int_def str_nat.simps digit_chars)

lemma port_5555: "str_int 5555 = ''5555''"
  by (simp add: str_int_def str_nat.simps digit_chars)

lemma host_suffixes: "str_nat 20 = ''20''" "str_nat 30 = ''30''" "str_nat 10 = ''10''"
  by (simp_all add: str_nat.simps digit_chars)

lemma channel_message_4: "channel_message 4 = ''Channel must be 1, 2, or 3, got 4''"
  by (simp add: channel_message_def channel_text)

lemma strip_tokens:
  "py_strip ''YES'' = ''YES''" "py_strip ''ON'' = ''ON''" "py_strip ''OFF'' = ''OFF''"
  "py_strip ''on'' = ''on''" "py_strip ''1'' = ''1''" "py_strip ''XX'' = ''XX''"
  "py_strip ''CC'' = ''CC''" "py_strip ''abc'' = ''abc''"
  by (simp_all add: py_strip_def is_space_def)

lemma fields_abc: "comma_fields ''abc'' = [''abc'']"
  by (simp add: comma_fields_def strip_tokens)

lemma bench_float_abc: "bench_float ''abc'' = Inl (float_message ''abc'')"
  by (simp add: bench_float_def digit_val_def)

lemma bench_floats:
  "bench_float ''3.300'' = Inr (33 / 10)" "bench_float ''0.500'' = Inr (1 / 2)"
  "bench_float ''5.002'' = Inr (5002 / 1000)" "bench_float ''1.001'' = Inr (1001 / 1000)"
  "bench_float ''5.007'' = Inr (5007 / 1000)"
  by (simp_all add: bench_float_def digit_val_def)

lemma split_appl_3:
  "py_split CHR '','' (py_strip ''CH1:30V/3A,3.300,0.500'') = [''CH1:30V/3A''] @ [''3.300'', ''0.500'']"
  by (simp add: py_strip_def is_space_def)

lemma split_appl_2:
  "py_split CHR '','' (py_strip ''3.300,0.500'') = [] @ [''3.300'', ''0.500'']"
  by (simp add: py_strip_def is_space_def)

lemma split_appl_4:
  "py_split CHR '','' (py_strip ''CH1,30V/3A,3.300,0.500'') = [''CH1'', ''30V/3A''] @ [''3.300'', ''0.500'']"
  by (simp add: py_strip_def is_space_def)

lemma upper_dp832:
  "py_upper ''Rigol Technologies,dp832,DP8C1234,00.01.14''
     = ''RIGOL TECHNOLOGIES,DP832,DP8C1234,00.01.14''"
  by code_simp

lemma upper_lab:
  "py_upper ''RIGOL TECHNOLOGIES,DP832,DP8C1234,00.01.14''
     = ''RIGOL TECHNOLOGIES,DP832,DP8C1234,00.01.14''"
  by code_simp

lemma upper_dp821:
  "py_upper ''RIGOL TECHNOLOGIES,DP821A,DP8E1234,00.01.14''
     = ''RIGOL TECHNOLOGIES,DP821A,DP8E1234,00.01.14''"
  by code_simp

lemma upper_other: "py_upper ''KEYSIGHT,E36313A,MY1234,1.0'' = ''KEYSIGHT,E36313A,MY1234,1.0''"
  by code_simp

lemma strip_ids:
  "py_strip ''Rigol Technologies,dp832,DP8C1234,00.01.14''
     = ''Rigol Technologies,dp832,DP8C1234,00.01.14''"
  "py_strip ''RIGOL TECHNOLOGIES,DP832,DP8C1234,00.01.14''
     = ''RIGOL TECHNOLOGIES,DP832,DP8C1234,00.01.14''"
  "py_strip ''RIGOL TECHNOLOGIES,DP821A,DP8E1234,00.01.14''
     = ''RIGOL TECHNOLOGIES,DP821A,DP8E1234,00.01.14''"
  by (simp_all add: py_strip_def is_space_def)

lemma match_dp832:
  "vendor_and_model [''DP832''] ''Rigol Technologies,dp832,DP8C1234,00.01.14''"
  "vendor_and_model [''DP832'', ''DP821'', ''DP712''] ''Rigol Technologies,dp832,DP8C1234,00.01.14''"
  by (simp_all add: vendor_and_model_def upper_dp832)

lemma match_other:
  "\<not> vendor_and_model [''DP832''] ''KEYSIGHT,E36313A,MY1234,1.0''"
  "\<not> vendor_and_model [''DP832'', ''DP821'', ''DP712''] ''KEYSIGHT,E36313A,MY1234,1.0''"
  by (simp_all add: vendor_and_model_def upper_other)

lemma lab_base: "get_local_network lab_net = ''10.0.0''"
  by (simp add: get_local_network_def lab_net_def)

lemma lab_responsive:
  "responsive_ips lab_net ''10.0.0'' [20, 30, 10] = [''10.0.0.20'', ''10.0.0.10'']"
  by (simp add: responsive_ips_def host_suffixes ping_ip_def lab_net_def)

lemma lab_probe_20:
  "test_dp832_connection lab_net ''10.0.0.20'' 5555
     = Some ''RIGOL TECHNOLOGIES,DP832,DP8C1234,00.01.14''"
  by (simp add: test_dp832_connection_def resource_string_def port_5555 lab_net_def
      upper_lab strip_ids)

lemma lab_probe_10: "test_dp832_connection lab_net ''10.0.0.10'' 5555 = None"
  by (simp add: test_dp832_connection_def resource_string_def port_5555 lab_net_def)

lemma lab_devices:
  "find_dp832_devices lab_net None 5555 [20, 30, 10]
     = [(''10.0.0.20'', ''RIGOL TECHNOLOGIES,DP832,DP8C1234,00.01.14'')]"
  by (simp add: find_dp832_devices_def lab_base lab_responsive lab_probe_20 lab_probe_10)

lemma quiet_ping: "ping_ip (bench_net True None) ip = False"
  by (simp add: ping_ip_def bench_net_def)


section \<open>Channel validation\<close>

text \<open>
  C1. For a channel id outside \<open>{1, 2, 3}\<close>, every channel-scoped method of
  \<^verbatim>\<open>DP832\<close> raises the \<^verbatim>\<open>ValueError\<close> of \<^verbatim>\<open>_validate_channel\<close> (the
  invalid-argument error) and issues no query and no write: the trace of session calls
  is unchanged, whatever the instrument and the other arguments are.
\<close>

theorem invalid_channel_rejected_before_io:
  "channel \<notin> {1, 2, 3} \<Longrightarrow>
     rejects channel tr (get_output_state E channel)
   \<and> rejects channel tr (set_output_state E channel state)
   \<and> rejects channel tr (get_channel_settings E channel)
   \<and> rejects channel tr (set_channel_settings E channel v c)
   \<and> rejects channel tr (measure_voltage E channel)
   \<and> rejects channel tr (measure_current E channel)
   \<and> rejects channel tr (measure_power E channel)
   \<and> rejects channel tr (measure_all E channel)
   \<and> rejects channel tr (get_output_mode E channel)
   \<and> rejects channel tr (get_ocp_enabled E channel)
   \<and> rejects channel tr (set_ocp_enabled E channel enabled)
   \<and> rejects channel tr (get_ocp_value E channel)
   \<and> rejects channel tr (set_ocp_value E channel c)
   \<and> rejects channel tr (get_ovp_enabled E channel)
   \<and> rejects channel tr (set_ovp_enabled E channel enabled)
   \<and> rejects channel tr (get_ovp_value E channel)
   \<and> rejects channel tr (set_ovp_value E channel v)
   \<and> rejects channel tr (get_ocp_alarm E channel)
   \<and> rejects channel tr (clear_ocp_alarm E channel)
   \<and> rejects channel tr (get_ovp_alarm E channel)
   \<and> rejects channel tr (clear_ovp_alarm E channel)"
  unfolding get_output_state_def set_output_state_def get_channel_settings_def
    set_channel_settings_def measure_voltage_def measure_current_def measure_power_def
    measure_all_def get_output_mode_def get_ocp_enabled_def set_ocp_enabled_def
    get_ocp_value_def set_ocp_value_def get_ovp_enabled_def set_ovp_enabled_def
    get_ovp_value_def set_ovp_value_def get_ocp_alarm_def clear_ocp_alarm_def
    get_ovp_alarm_def clear_ovp_alarm_def
  by (intro conjI guarded_rejects)

theorem invalid_channel_rejected_before_io_witness:
  "(4::int) \<notin> {1, 2, 3}
   \<and> get_output_state (bench ''ON'') 4 [] = (Inl (ValueError ''Channel must be 1, 2, or 3, got 4''), [])
   \<and> set_channel_settings (bench ''ON'') 4 5 1 [] = (Inl (ValueError ''Channel must be 1, 2, or 3, got 4''), [])
   \<and> measure_all (bench ''ON'') 4 [] = (Inl (ValueError ''Channel must be 1, 2, or 3, got 4''), [])
   \<and> clear_ovp_alarm (bench ''ON'') 4 [] = (Inl (ValueError ''Channel must be 1, 2, or 3, got 4''), [])"
  using invalid_channel_rejected_before_io [of 4 "[]" "bench ''ON''" True 5 1 True]
  by (simp add: rejects_def channel_message_4)


section \<open>The single-address probes\<close>

text \<open>
  C2, as the sources have it. For every identification reply, each single-address probe
  returns the stripped reply exactly when its upper-cased text contains the vendor token
  \<open>RIGOL\<close> and one of the model tokens that probe accepts: \<open>DP832\<close> for
  \<^verbatim>\<open>test_dp832_connection\<close> and \<^verbatim>\<open>test_ip\<close> of \<^verbatim>\<open>discovery.py\<close>;
  \<open>DP832\<close>, \<open>DP821\<close> or \<open>DP712\<close> for \<^verbatim>\<open>test_ip\<close> of
  \<^verbatim>\<open>rigol_dp832/test_ip.py\<close>. On a transport error or a non-match the result is
  none. The probes of \<^verbatim>\<open>discovery.py\<close> never raise; \<^verbatim>\<open>test_ip\<close> of
  \<^verbatim>\<open>test_ip.py\<close> raises \<^verbatim>\<open>ImportError\<close> when PyVISA cannot be imported and
  never raises otherwise.
\<close>

theorem probe_classification:
  "(pyvisa_importable N \<and> visa_session N (resource_string ip port) = Some reply \<longrightarrow>
        test_dp832_connection N ip port
          = (if vendor_and_model [''DP832''] reply then Some (py_strip reply) else None)
      \<and> discovery_test_ip N ip port
          = (if vendor_and_model [''DP832''] reply then Some (py_strip reply) else None)
      \<and> test_ip N ip port
          = Inr (if vendor_and_model [''DP832'', ''DP821'', ''DP712''] reply
                 then Some (py_strip reply) else None))
   \<and> (pyvisa_importable N \<and> visa_session N (resource_string ip port) = None \<longrightarrow>
        test_dp832_connection N ip port = None
      \<and> discovery_test_ip N ip port = None
      \<and> test_ip N ip port = Inr None)
   \<and> (\<not> pyvisa_importable N \<longrightarrow>
        test_dp832_connection N ip port = None
      \<and> discovery_test_ip N ip port = None
      \<and> test_ip N ip port
          = Inl (ImportError ''PyVISA not available. Please install: pip install pyvisa''))"
  by (auto simp add: test_dp832_connection_def discovery_test_ip_def test_ip_def
      vendor_and_model_def Let_def)

theorem probe_classification_witness:
  "test_dp832_connection (bench_net True (Some ''Rigol Technologies,dp832,DP8C1234,00.01.14'')) ''192.168.1.100'' 5555
      = Some ''Rigol Technologies,dp832,DP8C1234,00.01.14''
   \<and> test_ip (bench_net True (Some ''Rigol Technologies,dp832,DP8C1234,00.01.14'')) ''192.168.1.100'' 5555
      = Inr (Some ''Rigol Technologies,dp832,DP8C1234,00.01.14'')
   \<and> test_dp832_connection (bench_net True (Some ''KEYSIGHT,E36313A,MY1234,1.0'')) ''192.168.1.100'' 5555 = None
   \<and> test_ip (bench_net True (Some ''KEYSIGHT,E36313A,MY1234,1.0'')) ''192.168.1.100'' 5555 = Inr None
   \<and> discovery_test_ip (bench_net True None) ''192.168.1.100'' 5555 = None
   \<and> test_ip (bench_net True None) ''192.168.1.100'' 5555 = Inr None
   \<and> test_dp832_connection (bench_net False None) ''192.168.1.100'' 5555 = None"
  using
    probe_classification [of "bench_net True (Some ''Rigol Technologies,dp832,DP8C1234,00.01.14'')"
      "''192.168.1.100''" 5555 "''Rigol Technologies,dp832,DP8C1234,00.01.14''"]
    probe_classification [of "bench_net True (Some ''KEYSIGHT,E36313A,MY1234,1.0'')"
      "''192.168.1.100''" 5555 "''KEYSIGHT,E36313A,MY1234,1.0''"]
    probe_classification [of "bench_net True None" "''192.168.1.100''" 5555 "[]"]
    probe_classification [of "bench_net False None" "''192.168.1.100''" 5555 "[]"]
  by (simp add: bench_net_def match_dp832 match_other strip_ids)

text \<open>
  C2 as stated says the probe never raises for a well-formed address. With PyVISA
  missing, \<^verbatim>\<open>test_ip\<close> of \<^verbatim>\<open>test_ip.py\<close> raises \<^verbatim>\<open>ImportError\<close> before
  it looks at the address.
\<close>

theorem test_ip_raises_without_pyvisa:
  "test_ip (bench_net False None) ''192.168.1.100'' 5555
     = Inl (ImportError ''PyVISA not available. Please install: pip install pyvisa'')"
  by (simp add: test_ip_def bench_net_def)


section \<open>Malformed replies\<close>

text \<open>
  C3, as the sources have it. With a valid channel, a malformed reply never yields a
  value or a default; the method raises the built-in exception of the step that fails.
  \<^verbatim>\<open>id\<close> on fewer than four comma fields raises \<^verbatim>\<open>IndexError\<close>;
  \<^verbatim>\<open>measure_voltage\<close>, \<^verbatim>\<open>measure_current\<close>, \<^verbatim>\<open>get_ocp_value\<close> and
  \<^verbatim>\<open>get_ovp_value\<close> on a non-numeric reply raise the \<^verbatim>\<open>ValueError\<close> of
  \<^verbatim>\<open>float\<close>; \<^verbatim>\<open>get_channel_settings\<close>, \<^verbatim>\<open>measure_power\<close> and
  \<^verbatim>\<open>measure_all\<close> raise \<^verbatim>\<open>ValueError\<close> or \<^verbatim>\<open>IndexError\<close> when a field
  they read is missing or non-numeric. There is no dedicated parse error.
\<close>

theorem malformed_reply_raises_builtin_error:
  "channel \<in> {1, 2, 3} \<Longrightarrow>
     (inst_query E tr ''*IDN?'' = Some reply \<and> length (comma_fields reply) < 4 \<longrightarrow>
        id_op E tr = (Inl (IndexError ''list index out of range''), tr @ [Query ''*IDN?'']))
   \<and> (inst_query E tr ('':MEAS? CH'' @ str_int channel) = Some reply
        \<and> float_of E (py_strip reply) = Inl m \<longrightarrow>
        measure_voltage E channel tr
          = (Inl (ValueError m), tr @ [Query ('':MEAS? CH'' @ str_int channel)]))
   \<and> (inst_query E tr ('':MEAS:CURR? CH'' @ str_int channel) = Some reply
        \<and> float_of E (py_strip reply) = Inl m \<longrightarrow>
        measure_current E channel tr
          = (Inl (ValueError m), tr @ [Query ('':MEAS:CURR? CH'' @ str_int channel)]))
   \<and> (inst_query E tr ('':OUTP:OCP:VAL? CH'' @ str_int channel) = Some reply
        \<and> float_of E (py_strip reply) = Inl m \<longrightarrow>
        get_ocp_value E channel tr
          = (Inl (ValueError m), tr @ [Query ('':OUTP:OCP:VAL? CH'' @ str_int channel)]))
   \<and> (inst_query E tr ('':OUTP:OVP:VAL? CH'' @ str_int channel) = Some reply
        \<and> float_of E (py_strip reply) = Inl m \<longrightarrow>
        get_ovp_value E channel tr
          = (Inl (ValueError m), tr @ [Query ('':OUTP:OVP:VAL? CH'' @ str_int channel)]))
   \<and> (inst_query E tr ('':APPL? CH'' @ str_int channel) = Some reply
        \<and> (length (comma_fields reply) < 2
             \<or> \<not> numeric E (comma_fields reply ! (length (comma_fields reply) - 2))
             \<or> \<not> numeric E (comma_fields reply ! (length (comma_fields reply) - 1))) \<longrightarrow>
        parse_failure (fst (get_channel_settings E channel tr)))
   \<and> (inst_query E tr ('':MEAS:ALL? CH'' @ str_int channel) = Some reply
        \<and> (length (comma_fields reply) < 3 \<or> \<not> numeric E (comma_fields reply ! 2)) \<longrightarrow>
        parse_failure (fst (measure_power E channel tr)))
   \<and> (inst_query E tr ('':MEAS:ALL? CH'' @ str_int channel) = Some reply
        \<and> (length (comma_fields reply) < 3
             \<or> \<not> numeric E (comma_fields reply ! 0)
             \<or> \<not> numeric E (comma_fields reply ! 1)
             \<or> \<not> numeric E (comma_fields reply ! 2)) \<longrightarrow>
        parse_failure (fst (measure_all E channel tr)))"
proof (intro conjI impI; elim conjE)
  assume "inst_query E tr ''*IDN?'' = Some reply" "length (comma_fields reply) < 4"
  then show "id_op E tr = (Inl (IndexError ''list index out of range''), tr @ [Query ''*IDN?''])"
    unfolding comma_fields_def by (rule id_op_short)
next
  assume "channel \<in> {1, 2, 3}" "inst_query E tr ('':MEAS? CH'' @ str_int channel) = Some reply"
    "float_of E (py_strip reply) = Inl m"
  then show "measure_voltage E channel tr
          = (Inl (ValueError m), tr @ [Query ('':MEAS? CH'' @ str_int channel)])"
    unfolding measure_voltage_def by (rule single_float_fails)
next
  assume "channel \<in> {1, 2, 3}" "inst_query E tr ('':MEAS:CURR? CH'' @ str_int channel) = Some reply"
    "float_of E (py_strip reply) = Inl m"
  then show "measure_current E channel tr
          = (Inl (ValueError m), tr @ [Query ('':MEAS:CURR? CH'' @ str_int channel)])"
    unfolding measure_current_def by (rule single_float_fails)
next
  assume "channel \<in> {1, 2, 3}" "inst_query E tr ('':OUTP:OCP:VAL? CH'' @ str_int channel) = Some reply"
    "float_of E (py_strip reply) = Inl m"
  then show "get_ocp_value E channel tr
          = (Inl (ValueError m), tr @ [Query ('':OUTP:OCP:VAL? CH'' @ str_int channel)])"
    unfolding get_ocp_value_def by (rule single_float_fails)
next
  assume "channel \<in> {1, 2, 3}" "inst_query E tr ('':OUTP:OVP:VAL? CH'' @ str_int channel) = Some reply"
    "float_of E (py_strip reply) = Inl m"
  then show "get_ovp_value E channel tr
          = (Inl (ValueError m), tr @ [Query ('':OUTP:OVP:VAL? CH'' @ str_int channel)])"
    unfolding get_ovp_value_def by (rule single_float_fails)
next
  assume "channel \<in> {1, 2, 3}" "inst_query E tr ('':APPL? CH'' @ str_int channel) = Some reply"
    "length (comma_fields reply) < 2
       \<or> \<not> numeric E (comma_fields reply ! (length (comma_fields reply) - 2))
       \<or> \<not> numeric E (comma_fields reply ! (length (comma_fields reply) - 1))"
  then show "parse_failure (fst (get_channel_settings E channel tr))"
    unfolding comma_fields_def by (rule channel_settings_malformed)
next
  assume "channel \<in> {1, 2, 3}" "inst_query E tr ('':MEAS:ALL? CH'' @ str_int channel) = Some reply"
    "length (comma_fields reply) < 3 \<or> \<not> numeric E (comma_fields reply ! 2)"
  then show "parse_failure (fst (measure_power E channel tr))"
    unfolding comma_fields_def by (rule measure_power_malformed)
next
  assume "channel \<in> {1, 2, 3}" "inst_query E tr ('':MEAS:ALL? CH'' @ str_int channel) = Some reply"
    "length (comma_fields reply) < 3
       \<or> \<not> numeric E (comma_fields reply ! 0)
       \<or> \<not> numeric E (comma_fields reply ! 1)
       \<or> \<not> numeric E (comma_fields reply ! 2)"
  then show "parse_failure (fst (measure_all E channel tr))"
    unfolding comma_fields_def by (rule measure_all_malformed)
qed

theorem malformed_reply_raises_builtin_error_witness:
  "(1::int) \<in> {1, 2, 3}
   \<and> id_op (bench ''abc'') [] = (Inl (IndexError ''list index out of range''), [Query ''*IDN?''])
   \<and> measure_voltage (bench ''abc'') 1 []
        = (Inl (ValueError (float_message ''abc'')), [Query '':MEAS? CH1''])
   \<and> get_ocp_value (bench ''abc'') 1 []
        = (Inl (ValueError (float_message ''abc'')), [Query '':OUTP:OCP:VAL? CH1''])
   \<and> parse_failure (fst (get_channel_settings (bench ''abc'') 1 []))
   \<and> parse_failure (fst (measure_power (bench ''abc'') 1 []))
   \<and> parse_failure (fst (measure_all (bench ''abc'') 1 []))"
  using malformed_reply_raises_builtin_error
    [of 1 "bench ''abc''" "[]" "''abc''" "float_message ''abc''"]
  by (simp add: bench_def channel_text fields_abc strip_tokens bench_float_abc)

text \<open>
  C3 as stated asks for a parse error naming the raw reply and the operation. On the
  reply \<open>abc\<close>, \<^verbatim>\<open>id\<close> raises \<^verbatim>\<open>IndexError\<close> with Python's fixed message,
  which names neither.
\<close>

theorem id_short_reply_raises_index_error:
  "id_op (bench ''abc'') [] = (Inl (IndexError ''list index out of range''), [Query ''*IDN?''])
   \<and> \<not> names_reply_and_operation (IndexError ''list index out of range'') ''abc'' ''id''"
proof -
  have "id_op (bench ''abc'') [] = (Inl (IndexError ''list index out of range''), [] @ [Query ''*IDN?''])"
    by (rule id_op_short [where reply = "''abc''"]) (simp_all add: bench_def strip_tokens)
  then show ?thesis
    by (simp add: names_reply_and_operation_def)
qed


section \<open>Literal reply tokens\<close>

text \<open>
  C4. For a valid channel and any reply, \<^verbatim>\<open>get_ocp_alarm\<close> returns true exactly when
  the stripped reply is the literal \<open>YES\<close>, and \<^verbatim>\<open>get_ovp_alarm\<close> returns true
  exactly when the stripped reply is the literal \<open>ON\<close>: two different sentinels.
\<close>

theorem alarm_sentinels:
  "channel \<in> {1, 2, 3} \<Longrightarrow>
   inst_query E tr ('':OUTP:OCP:ALAR? CH'' @ str_int channel) = Some ocp_reply \<Longrightarrow>
   inst_query E tr ('':OUTP:OVP:ALAR? CH'' @ str_int channel) = Some ovp_reply \<Longrightarrow>
     get_ocp_alarm E channel tr =
       (Inr (py_strip ocp_reply = ''YES''), tr @ [Query ('':OUTP:OCP:ALAR? CH'' @ str_int channel)])
   \<and> get_ovp_alarm E channel tr =
       (Inr (py_strip ovp_reply = ''ON''), tr @ [Query ('':OUTP:OVP:ALAR? CH'' @ str_int channel)])"
  by (simp add: get_ocp_alarm_def get_ovp_alarm_def guarded_runs query_answered ret_def)

theorem alarm_sentinels_witness:
  "(2::int) \<in> {1, 2, 3}
   \<and> get_ocp_alarm (bench ''YES'') 2 [] = (Inr True, [Query '':OUTP:OCP:ALAR? CH2''])
   \<and> get_ovp_alarm (bench ''YES'') 2 [] = (Inr False, [Query '':OUTP:OVP:ALAR? CH2''])
   \<and> get_ocp_alarm (bench ''ON'') 2 [] = (Inr False, [Query '':OUTP:OCP:ALAR? CH2''])
   \<and> get_ovp_alarm (bench ''ON'') 2 [] = (Inr True, [Query '':OUTP:OVP:ALAR? CH2''])"
  using alarm_sentinels [of 2 "bench ''YES''" "[]" "''YES''" "''YES''"]
    alarm_sentinels [of 2 "bench ''ON''" "[]" "''ON''" "''ON''"]
  by (simp add: bench_def channel_text strip_tokens)

text \<open>
  C5. For a valid channel and any reply, \<^verbatim>\<open>get_output_state\<close> returns true exactly
  when the stripped reply is the literal \<open>ON\<close>; \<open>OFF\<close> and every other token give
  false.
\<close>

theorem output_state_literal_on:
  "channel \<in> {1, 2, 3} \<Longrightarrow>
   inst_query E tr ('':OUTP:STAT? CH'' @ str_int channel) = Some reply \<Longrightarrow>
     get_output_state E channel tr =
       (Inr (py_strip reply = ''ON''), tr @ [Query ('':OUTP:STAT? CH'' @ str_int channel)])"
  by (simp add: get_output_state_def guarded_runs query_answered ret_def)

theorem output_state_literal_on_witness:
  "(1::int) \<in> {1, 2, 3}
   \<and> get_output_state (bench ''ON'') 1 [] = (Inr True, [Query '':OUTP:STAT? CH1''])
   \<and> get_output_state (bench ''OFF'') 1 [] = (Inr False, [Query '':OUTP:STAT? CH1''])
   \<and> get_output_state (bench ''1'') 1 [] = (Inr False, [Query '':OUTP:STAT? CH1''])
   \<and> get_output_state (bench ''on'') 1 [] = (Inr False, [Query '':OUTP:STAT? CH1''])"
  using output_state_literal_on [of 1 "bench ''ON''" "[]" "''ON''"]
    output_state_literal_on [of 1 "bench ''OFF''" "[]" "''OFF''"]
    output_state_literal_on [of 1 "bench ''1''" "[]" "''1''"]
    output_state_literal_on [of 1 "bench ''on''" "[]" "''on''"]
  by (simp add: bench_def channel_text strip_tokens)

text \<open>
  C6, as the sources have it. For a valid channel, \<^verbatim>\<open>get_output_mode\<close> returns the
  stripped reply unchanged; it is one of \<open>CV\<close>, \<open>CC\<close>, \<open>UR\<close> exactly when the
  instrument's stripped reply is.
\<close>

theorem output_mode_is_stripped_reply:
  "channel \<in> {1, 2, 3} \<Longrightarrow>
   inst_query E tr ('':OUTP:MODE? CH'' @ str_int channel) = Some reply \<Longrightarrow>
     get_output_mode E channel tr =
       (Inr (py_strip reply), tr @ [Query ('':OUTP:MODE? CH'' @ str_int channel)])"
  by (simp add: get_output_mode_def guarded_runs query_answered ret_def)

theorem output_mode_is_stripped_reply_witness:
  "(3::int) \<in> {1, 2, 3}
   \<and> get_output_mode (bench ''CC'') 3 [] = (Inr ''CC'', [Query '':OUTP:MODE? CH3''])"
  using output_mode_is_stripped_reply [of 3 "bench ''CC''" "[]" "''CC''"]
  by (simp add: bench_def channel_text strip_tokens)

text \<open>
  C6 as stated promises one of the three mode strings for every reply. The reply
  \<open>XX\<close> comes back as \<open>XX\<close>.
\<close>

theorem output_mode_not_always_cv_cc_ur:
  "get_output_mode (bench ''XX'') 1 [] = (Inr ''XX'', [Query '':OUTP:MODE? CH1''])
   \<and> ''XX'' \<notin> {''CV'', ''CC'', ''UR''}"
  by (simp add: get_output_mode_def guarded_runs query_answered bench_def ret_def
      channel_text strip_tokens)


section \<open>Comma-separated replies\<close>

text \<open>
  C7. For a valid channel and a reply whose comma fields end with two fields that
  \<^verbatim>\<open>float\<close> accepts, \<^verbatim>\<open>get_channel_settings\<close> returns the float of the
  second-to-last field as the voltage and the float of the last field as the current,
  whatever fields \<open>pre\<close> come before them.
\<close>

theorem channel_settings_last_two_fields:
  assumes ch: "channel \<in> {1, 2, 3}"
    and q: "inst_query E tr ('':APPL? CH'' @ str_int channel) = Some reply"
    and fields: "py_split CHR '','' (py_strip reply) = pre @ [a, b]"
    and va: "float_of E a = Inr v"
    and cb: "float_of E b = Inr c"
  shows "get_channel_settings E channel tr =
           (Inr \<lparr>voltage = v, current = c\<rparr>, tr @ [Query ('':APPL? CH'' @ str_int channel)])"
proof -
  have fa: "float_at E (pre @ [a, b]) (- 2) = Inr v"
    using py_index_last_but_one va by (rule float_at_ok)
  have fb: "float_at E (pre @ [a, b]) (- 1) = Inr c"
    using py_index_last cb by (rule float_at_ok)
  show ?thesis
    unfolding get_channel_settings_def
    using ch q by (simp add: guarded_runs query_answered fields fa fb
        and_then_returns [OF lift_returns] ret_def)
qed

theorem channel_settings_last_two_fields_witness:
  "(1::int) \<in> {1, 2, 3}
   \<and> get_channel_settings (bench ''CH1:30V/3A,3.300,0.500'') 1 [] =
        (Inr \<lparr>voltage = 33 / 10, current = 1 / 2\<rparr>, [Query '':APPL? CH1''])
   \<and> get_channel_settings (bench ''3.300,0.500'') 1 [] =
        (Inr \<lparr>voltage = 33 / 10, current = 1 / 2\<rparr>, [Query '':APPL? CH1''])
   \<and> get_channel_settings (bench ''CH1,30V/3A,3.300,0.500'') 1 [] =
        (Inr \<lparr>voltage = 33 / 10, current = 1 / 2\<rparr>, [Query '':APPL? CH1''])"
  using
    channel_settings_last_two_fields [of 1 "bench ''CH1:30V/3A,3.300,0.500''" "[]"
      "''CH1:30V/3A,3.300,0.500''" "[''CH1:30V/3A'']" "''3.300''" "''0.500''" "33 / 10" "1 / 2"]
    channel_settings_last_two_fields [of 1 "bench ''3.300,0.500''" "[]"
      "''3.300,0.500''" "[]" "''3.300''" "''0.500''" "33 / 10" "1 / 2"]
    channel_settings_last_two_fields [of 1 "bench ''CH1,30V/3A,3.300,0.500''" "[]"
      "''CH1,30V/3A,3.300,0.500''" "[''CH1'', ''30V/3A'']" "''3.300''" "''0.500''" "33 / 10" "1 / 2"]
  by (simp add: bench_def channel_text split_appl_2 split_appl_3 split_appl_4
      bench_floats del: append.simps)

text \<open>
  C8. For a valid channel and a reply \<open>a,b,c\<close> of three comma-separated fields that
  \<^verbatim>\<open>float\<close> accepts, \<^verbatim>\<open>measure_all\<close> returns the three floats as voltage,
  current and power, and \<^verbatim>\<open>measure_power\<close> returns the float of the third field.
\<close>

theorem measure_all_three_fields:
  assumes ch: "channel \<in> {1, 2, 3}"
    and q: "inst_query E tr ('':MEAS:ALL? CH'' @ str_int channel) = Some reply"
    and shape: "py_strip reply = a @ '','' @ b @ '','' @ c"
    and commas: "CHR '','' \<notin> set a" "CHR '','' \<notin> set b" "CHR '','' \<notin> set c"
    and floats: "float_of E a = Inr v" "float_of E b = Inr i" "float_of E c = Inr p"
  shows "measure_all E channel tr =
           (Inr \<lparr>meas_voltage = v, meas_current = i, meas_power = p\<rparr>,
            tr @ [Query ('':MEAS:ALL? CH'' @ str_int channel)])
       \<and> measure_power E channel tr =
           (Inr p, tr @ [Query ('':MEAS:ALL? CH'' @ str_int channel)])"
proof -
  have fields: "py_split CHR '','' (py_strip reply) = [a, b, c]"
    using commas by (simp add: shape py_split_field py_split_no_sep)
  have f0: "float_at E [a, b, c] 0 = Inr v"
    by (rule float_at_ok [OF _ floats(1)]) (simp add: py_index_def)
  have f1: "float_at E [a, b, c] 1 = Inr i"
    by (rule float_at_ok [OF _ floats(2)]) (simp add: py_index_def)
  have f2: "float_at E [a, b, c] 2 = Inr p"
    by (rule float_at_ok [OF _ floats(3)]) (simp add: py_index_def)
  have all: "measure_all E channel tr =
           (Inr \<lparr>meas_voltage = v, meas_current = i, meas_power = p\<rparr>,
            tr @ [Query ('':MEAS:ALL? CH'' @ str_int channel)])"
    unfolding measure_all_def
    using ch q by (simp add: guarded_runs query_answered fields f0 f1 f2
        and_then_returns [OF lift_returns] ret_def)
  have pow: "measure_power E channel tr =
           (Inr p, tr @ [Query ('':MEAS:ALL? CH'' @ str_int channel)])"
    unfolding measure_power_def
    using ch q by (simp add: guarded_runs query_answered fields f2 lift_returns)
  from all pow show ?thesis ..
qed

theorem measure_all_three_fields_witness:
  "(2::int) \<in> {1, 2, 3}
   \<and> measure_all (bench ''5.002,1.001,5.007'') 2 [] =
        (Inr \<lparr>meas_voltage = 5002 / 1000, meas_current = 1001 / 1000, meas_power = 5007 / 1000\<rparr>,
         [Query '':MEAS:ALL? CH2''])
   \<and> measure_power (bench ''5.002,1.001,5.007'') 2 [] =
        (Inr (5007 / 1000), [Query '':MEAS:ALL? CH2''])"
  using measure_all_three_fields [of 2 "bench ''5.002,1.001,5.007''" "[]" "''5.002,1.001,5.007''"
      "''5.002''" "''1.001''" "''5.007''" "5002 / 1000" "1001 / 1000" "5007 / 1000"]
  by (simp add: bench_def channel_text py_strip_def is_space_def bench_floats)


section \<open>The subnet scan\<close>

text \<open>
  C9. When no host of the sweep answers the ping, \<^verbatim>\<open>find_dp832_devices\<close> returns
  the empty list (it is a total function: there is no exception to raise); and whatever
  \<^verbatim>\<open>find_dp832_devices\<close> returns, \<^verbatim>\<open>find_first_dp832\<close> returns none exactly when
  that list is empty and its first element otherwise.
\<close>

theorem empty_sweep_and_first_device:
  "((\<forall>i \<in> set order. \<not> ping_ip N (host_address (network_base_of N network_base) i))
      \<longrightarrow> find_dp832_devices N network_base port order = [])
   \<and> (find_first_dp832 N network_base port order = None
        \<longleftrightarrow> find_dp832_devices N network_base port order = [])
   \<and> (find_dp832_devices N network_base port order \<noteq> []
        \<longrightarrow> find_first_dp832 N network_base port order
            = Some (hd (find_dp832_devices N network_base port order)))"
proof (intro conjI impI)
  assume "\<forall>i \<in> set order. \<not> ping_ip N (host_address (network_base_of N network_base) i)"
  then have "responsive_ips N (network_base_of N network_base) order = []"
    by (simp add: responsive_ips_def host_address_def filter_empty_conv)
  then show "find_dp832_devices N network_base port order = []"
    by (simp add: find_dp832_devices_def network_base_of_def)
next
  show "find_first_dp832 N network_base port order = None
        \<longleftrightarrow> find_dp832_devices N network_base port order = []"
    by (simp add: find_first_dp832_def Let_def)
next
  assume "find_dp832_devices N network_base port order \<noteq> []"
  then show "find_first_dp832 N network_base port order
            = Some (hd (find_dp832_devices N network_base port order))"
    by (simp add: find_first_dp832_def Let_def hd_conv_nth)
qed

theorem empty_sweep_and_first_device_witness:
  "find_dp832_devices (bench_net True None) None 5555 [1..<255] = []
   \<and> find_first_dp832 (bench_net True None) None 5555 [1..<255] = None
   \<and> find_dp832_devices lab_net None 5555 [20, 30, 10] \<noteq> []
   \<and> find_first_dp832 lab_net None 5555 [20, 30, 10]
       = Some (''10.0.0.20'', ''RIGOL TECHNOLOGIES,DP832,DP8C1234,00.01.14'')"
proof -
  have quiet: "\<forall>i \<in> set [1..<255]. \<not> ping_ip (bench_net True None) (host_address (network_base_of (bench_net True None) None) i)"
    unfolding quiet_ping by blast
  have none: "find_dp832_devices (bench_net True None) None 5555 [1..<255] = []"
    using empty_sweep_and_first_device [of "[1..<255]" "bench_net True None" None 5555] quiet
    by blast
  have first_none: "find_first_dp832 (bench_net True None) None 5555 [1..<255] = None"
    using empty_sweep_and_first_device [of "[1..<255]" "bench_net True None" None 5555] none
    by blast
  have found: "find_dp832_devices lab_net None 5555 [20, 30, 10] \<noteq> []"
    unfolding lab_devices by blast
  have first: "find_first_dp832 lab_net None 5555 [20, 30, 10]
       = Some (hd (find_dp832_devices lab_net None 5555 [20, 30, 10]))"
    using empty_sweep_and_first_device [of "[20, 30, 10]" lab_net None 5555] found
    by blast
  have first': "find_first_dp832 lab_net None 5555 [20, 30, 10]
       = Some (''10.0.0.20'', ''RIGOL TECHNOLOGIES,DP832,DP8C1234,00.01.14'')"
    unfolding first lab_devices by simp
  from none first_none found first' show ?thesis by blast
qed


section \<open>The two probes compared\<close>

text \<open>
  C10, as the sources have it. Whenever \<^verbatim>\<open>test_dp832_connection\<close> returns an
  identification, \<^verbatim>\<open>test_ip\<close> of \<^verbatim>\<open>test_ip.py\<close> returns the same one. With
  PyVISA importable the two probes give the same result on every transport error and on
  every reply whose upper-cased text contains \<open>DP832\<close> or contains neither
  \<open>DP821\<close> nor \<open>DP712\<close>.
\<close>

theorem probes_agree_on_dp832_family:
  "(test_dp832_connection N ip port = Some d \<longrightarrow> test_ip N ip port = Inr (Some d))
   \<and> (pyvisa_importable N \<and> visa_session N (resource_string ip port) = Some reply
        \<and> (py_in ''DP832'' (py_upper reply)
             \<or> \<not> (py_in ''DP821'' (py_upper reply) \<or> py_in ''DP712'' (py_upper reply)))
       \<longrightarrow> test_ip N ip port = Inr (test_dp832_connection N ip port))
   \<and> (pyvisa_importable N \<and> visa_session N (resource_string ip port) = None
       \<longrightarrow> test_ip N ip port = Inr (test_dp832_connection N ip port))"
  by (auto simp add: test_dp832_connection_def test_ip_def Let_def
      split: option.splits if_splits)

theorem probes_agree_on_dp832_family_witness:
  "test_ip (bench_net True (Some ''Rigol Technologies,dp832,DP8C1234,00.01.14'')) ''192.168.1.100'' 5555
      = Inr (Some ''Rigol Technologies,dp832,DP8C1234,00.01.14'')
   \<and> test_ip (bench_net True (Some ''KEYSIGHT,E36313A,MY1234,1.0'')) ''192.168.1.100'' 5555
      = Inr (test_dp832_connection (bench_net True (Some ''KEYSIGHT,E36313A,MY1234,1.0'')) ''192.168.1.100'' 5555)
   \<and> test_ip (bench_net True None) ''192.168.1.100'' 5555
      = Inr (test_dp832_connection (bench_net True None) ''192.168.1.100'' 5555)"
proof -
  let ?R = "''Rigol Technologies,dp832,DP8C1234,00.01.14''"
  let ?K = "''KEYSIGHT,E36313A,MY1234,1.0''"
  have found: "test_dp832_connection (bench_net True (Some ?R)) ''192.168.1.100'' 5555 = Some ?R"
    by (simp add: test_dp832_connection_def bench_net_def upper_dp832 strip_ids)
  have a: "test_ip (bench_net True (Some ?R)) ''192.168.1.100'' 5555 = Inr (Some ?R)"
    using probes_agree_on_dp832_family [of "bench_net True (Some ?R)" "''192.168.1.100''" 5555 ?R ?R] found
    by blast
  have kd: "\<not> (py_in ''DP821'' (py_upper ?K) \<or> py_in ''DP712'' (py_upper ?K))"
    by (simp add: upper_other)
  have b: "test_ip (bench_net True (Some ?K)) ''192.168.1.100'' 5555
      = Inr (test_dp832_connection (bench_net True (Some ?K)) ''192.168.1.100'' 5555)"
    using probes_agree_on_dp832_family [of "bench_net True (Some ?K)" "''192.168.1.100''" 5555 ?K ?K] kd
    by (simp add: bench_net_def)
  have c: "test_ip (bench_net True None) ''192.168.1.100'' 5555
      = Inr (test_dp832_connection (bench_net True None) ''192.168.1.100'' 5555)"
    using probes_agree_on_dp832_family [of "bench_net True None" "''192.168.1.100''" 5555 "[]" "[]"]
    by (simp add: bench_net_def)
  from a b c show ?thesis by blast
qed

text \<open>
  C10 as stated says the two probes accept the same model tokens. A \<open>DP821A\<close>
  reply is none for \<^verbatim>\<open>test_dp832_connection\<close> and a match for \<^verbatim>\<open>test_ip\<close>.
\<close>

theorem probes_disagree_on_dp821:
  "test_dp832_connection (bench_net True (Some ''RIGOL TECHNOLOGIES,DP821A,DP8E1234,00.01.14'')) ''192.168.1.100'' 5555
      = None
   \<and> test_ip (bench_net True (Some ''RIGOL TECHNOLOGIES,DP821A,DP8E1234,00.01.14'')) ''192.168.1.100'' 5555
      = Inr (Some ''RIGOL TECHNOLOGIES,DP821A,DP8E1234,00.01.14'')"
  by (simp add: test_dp832_connection_def test_ip_def bench_net_def upper_dp821 strip_ids)

end
